theory Spec2Isabelle
  imports Main "HOL-Library.Sublist"
begin

section \<open>Remote queries manager: data model\<close>

text \<open>
  A shallow embedding of \<^verbatim>\<open>remote-queries-manager.ts\<close> (class
  \<^verbatim>\<open>RemoteQueriesManager\<close>). The types imported by that file are declared here
  with the fields the manager reads or writes. JavaScript numbers that hold sizes,
  counts and identifiers are modelled as \<open>int\<close>; an optional field is an \<open>option\<close>.
\<close>

subsection \<open>Numbers as text\<close>

text \<open>
  \<^verbatim>\<open>String(n)\<close>, \<^verbatim>\<open>n.toString()\<close> and a number inside a template literal
  all give the decimal numeral of an integer, with a leading minus sign below zero.
\<close>

definition digit_char :: "nat \<Rightarrow> char" where
  "digit_char d = ''0123456789'' ! (d mod 10)"

fun digits :: "nat \<Rightarrow> string" where
  "digits n = (if n < 10 then [digit_char n] else digits (n div 10) @ [digit_char (n mod 10)])"

declare digits.simps [simp del]

definition String_num :: "int \<Rightarrow> string" where
  "String_num n = (if n < 0 then CHR ''-'' # digits (nat (- n)) else digits (nat n))"

text \<open>Reading a decimal numeral back, used to state facts about rendered sizes.\<close>

definition digit_val :: "char \<Rightarrow> nat" where
  "digit_val c = of_char c - 48"

definition read_digits :: "string \<Rightarrow> nat" where
  "read_digits cs = foldl (\<lambda>acc c. 10 * acc + digit_val c) 0 cs"

definition read_num :: "string \<Rightarrow> int" where
  "read_num cs =
     (case cs of
        [] \<Rightarrow> 0
      | c # rest \<Rightarrow> if c = CHR ''-'' then - int (read_digits rest) else int (read_digits cs))"

subsection \<open>The remote result index and the mapped result\<close>

record RemoteQueryResultIndexItem =
  artifactId :: int
  nwo :: string
  resultCount :: int
  bqrsFileSize :: int
  sarifFileSize :: "int option"

record RemoteQueryResultIndex =
  artifactsUrlPath :: string
  items :: "RemoteQueryResultIndexItem list"

record DownloadLink =
  linkId :: string
  urlPath :: string
  innerFilePath :: string
  queryId :: string

record AnalysisSummary =
  nwo :: string
  resultCount :: int
  fileSizeInBytes :: int
  downloadLink :: DownloadLink

record RemoteQueryResult =
  executionEndTime :: int
  analysisSummaries :: "AnalysisSummary list"

text \<open>The object literal built per admitted summary in \<^verbatim>\<open>autoDownloadRemoteQueryResults\<close>.\<close>

record DownloadRequest =
  nwo :: string
  resultCount :: int
  downloadLink :: DownloadLink
  fileSize :: string

text \<open>
  JavaScript truthiness of an optional number, as tested by
  \<^verbatim>\<open>item.sarifFileSize ? ... : ...\<close>: \<^verbatim>\<open>undefined\<close> and \<open>0\<close> are falsy.
\<close>

definition truthy :: "int option \<Rightarrow> bool" where
  "truthy v = (case v of None \<Rightarrow> False | Some n \<Rightarrow> n \<noteq> 0)"

section \<open>The result mapper\<close>

definition mapQueryResult :: "int \<Rightarrow> RemoteQueryResultIndex \<Rightarrow> string \<Rightarrow> RemoteQueryResult" where
  "mapQueryResult executionEndTime' resultIndex queryId' =
     (let analysisSummaries' = map (\<lambda>item.
            \<lparr> AnalysisSummary.nwo = RemoteQueryResultIndexItem.nwo item,
              AnalysisSummary.resultCount = RemoteQueryResultIndexItem.resultCount item,
              fileSizeInBytes =
                (if truthy (sarifFileSize item) then the (sarifFileSize item)
                 else bqrsFileSize item),
              AnalysisSummary.downloadLink =
                \<lparr> linkId = String_num (artifactId item),
                  urlPath = artifactsUrlPath resultIndex @ ''/'' @ String_num (artifactId item),
                  innerFilePath =
                    (if truthy (sarifFileSize item) then ''results.sarif'' else ''results.bqrs''),
                  queryId = queryId' \<rparr> \<rparr>) (items resultIndex)
      in \<lparr> executionEndTime = executionEndTime', analysisSummaries = analysisSummaries' \<rparr>)"

section \<open>The auto-download admission filter\<close>

definition autoDownloadMaxSize :: int where
  "autoDownloadMaxSize = 300 * 1024"

definition autoDownloadMaxCount :: nat where
  "autoDownloadMaxCount = 100"

text \<open>The value of the local constant \<^verbatim>\<open>analysesToDownload\<close>: filter, slice, map.\<close>

definition analysesToDownload :: "RemoteQueryResult \<Rightarrow> DownloadRequest list" where
  "analysesToDownload queryResult =
     map (\<lambda>a. \<lparr> DownloadRequest.nwo = AnalysisSummary.nwo a,
                DownloadRequest.resultCount = AnalysisSummary.resultCount a,
                DownloadRequest.downloadLink = AnalysisSummary.downloadLink a,
                fileSize = String_num (fileSizeInBytes a) \<rparr>)
       (take autoDownloadMaxCount
          (filter (\<lambda>a. fileSizeInBytes a < autoDownloadMaxSize) (analysisSummaries queryResult)))"

section \<open>The orchestrator\<close>

subsection \<open>Collaborator types\<close>

text \<open>
  Types declared in files the manager imports. Credentials and the cancellation token
  are opaque to the manager: it only passes them on.
\<close>

datatype Credentials = Credentials string

datatype CancellationToken = CancellationToken bool

record RemoteQuery =
  queryName :: string
  repositories :: "string list"
  actionsWorkflowRunId :: int

record RemoteQuerySubmissionResult =
  query :: "RemoteQuery option"

datatype WorkflowStatus = InProgress | CompletedSuccessfully | CompletedUnsuccessfully | Cancelled

record RemoteQueryWorkflowResult =
  status :: WorkflowStatus
  error :: "string option"

datatype QueryStatus = InProgress | Completed | Failed

record RemoteQueryHistoryItem =
  itemQueryName :: string
  itemQueryId :: string
  itemStoragePath :: string
  completed :: bool
  status :: QueryStatus
  failureReason :: "string option"

text \<open>
  An \<^verbatim>\<open>undefined\<close> inside a template literal prints as the word \<^verbatim>\<open>undefined\<close>.
\<close>

definition template_str :: "string option \<Rightarrow> string" where
  "template_str v = (case v of None \<Rightarrow> ''undefined'' | Some t \<Rightarrow> t)"

definition workflowStatus_str :: "WorkflowStatus \<Rightarrow> string" where
  "workflowStatus_str st =
     (case st of
        WorkflowStatus.InProgress \<Rightarrow> ''InProgress''
      | CompletedSuccessfully \<Rightarrow> ''CompletedSuccessfully''
      | CompletedUnsuccessfully \<Rightarrow> ''CompletedUnsuccessfully''
      | Cancelled \<Rightarrow> ''Cancelled'')"

subsection \<open>Effects\<close>

text \<open>
  The manager's only observable surface is its effects. Each call into a collaborator is
  recorded, in program order, as an event; the history manager's entries and the files
  written are kept as state. A path is the list of segments handed to
  \<^verbatim>\<open>path.join\<close>; a payload is the object handed to \<^verbatim>\<open>JSON.stringify\<close> or
  to a command. \<open>ExecuteCommand\<close> and \<open>AskToOpenResults\<close> are started with
  \<^verbatim>\<open>void\<close>: the manager does not wait for them, so only their start is an event here.
  An error message is an event when it is shown, awaited or not.
\<close>

type_synonym Path = "string list"

datatype Payload = QueryPayload RemoteQuery | ResultPayload RemoteQueryResult

datatype Event =
    CredentialsInitialize
  | RunRemoteQuery Credentials "string option" bool CancellationToken
  | ExecuteCommand string Payload
  | CreateTimestampFile Path
  | WriteFile Path Payload
  | AddQuery RemoteQueryHistoryItem
  | MonitorQuery RemoteQuery CancellationToken
  | GetRemoteQueryIndex Credentials RemoteQuery
  | ShowAndLogErrorMessage string
  | AskToOpenResults RemoteQuery RemoteQueryResult
  | RefreshTreeView
  | DownloadAnalysesResults "DownloadRequest list" CancellationToken

record World =
  history :: "RemoteQueryHistoryItem list"
  files :: "Path \<rightharpoonup> Payload"
  trace :: "Event list"

text \<open>
  What the collaborators answer. Their code is outside this file, so their results are
  parameters: the manager's fields, the random suffix drawn by \<^verbatim>\<open>nanoid()\<close>, the
  clock read by \<^verbatim>\<open>new Date()\<close>, the constructor of the history item, and the values
  the awaited calls resolve to. The model covers the runs in which every awaited call
  resolves.
\<close>

record Env =
  storagePath :: string
  activeTextEditorUri :: "string option"
  nanoid :: string
  now :: int
  credentials :: Credentials
  runRemoteQuery_result ::
    "Credentials \<Rightarrow> string option \<Rightarrow> bool \<Rightarrow> CancellationToken \<Rightarrow> RemoteQuerySubmissionResult option"
  newRemoteQueryHistoryItem :: "string \<Rightarrow> string \<Rightarrow> string \<Rightarrow> RemoteQueryHistoryItem"
  monitorQuery_result :: "RemoteQuery \<Rightarrow> CancellationToken \<Rightarrow> RemoteQueryWorkflowResult"
  getRemoteQueryIndex_result :: "Credentials \<Rightarrow> RemoteQuery \<Rightarrow> RemoteQueryResultIndex option"

datatype Error = AssertNever

definition emit :: "Event \<Rightarrow> World \<Rightarrow> World" where
  "emit e w = w\<lparr>trace := trace w @ [e]\<rparr>"

definition Credentials_initialize :: "Env \<Rightarrow> World \<Rightarrow> Credentials \<times> World" where
  "Credentials_initialize env w = (credentials env, emit CredentialsInitialize w)"

definition executeCommand :: "string \<Rightarrow> Payload \<Rightarrow> World \<Rightarrow> World" where
  "executeCommand command arg w = emit (ExecuteCommand command arg) w"

definition showAndLogErrorMessage :: "string \<Rightarrow> World \<Rightarrow> World" where
  "showAndLogErrorMessage message w = emit (ShowAndLogErrorMessage message) w"

text \<open>
  \<^verbatim>\<open>qhm.addQuery\<close> keeps the item object itself, so the later assignments to
  \<^verbatim>\<open>queryHistoryItem\<close> change the tracked entry. The entry is addressed by its
  position in the history.
\<close>

definition addQuery :: "RemoteQueryHistoryItem \<Rightarrow> World \<Rightarrow> nat \<times> World" where
  "addQuery item w =
     (length (history w), emit (AddQuery item) (w\<lparr>history := history w @ [item]\<rparr>))"

definition assign :: "nat \<Rightarrow> (RemoteQueryHistoryItem \<Rightarrow> RemoteQueryHistoryItem) \<Rightarrow> World \<Rightarrow> World" where
  "assign ref f w = w\<lparr>history := (history w)[ref := f (history w ! ref)]\<rparr>"

definition refreshTreeView :: "World \<Rightarrow> World" where
  "refreshTreeView w = emit RefreshTreeView w"

subsection \<open>Private helpers of the manager\<close>

definition createQueryId :: "Env \<Rightarrow> string \<Rightarrow> string" where
  "createQueryId env queryName' = queryName' @ ''-'' @ nanoid env"

definition prepareStorageDirectory :: "Env \<Rightarrow> string \<Rightarrow> World \<Rightarrow> World" where
  "prepareStorageDirectory env queryId' w = emit (CreateTimestampFile [storagePath env, queryId']) w"

definition storeFile :: "Env \<Rightarrow> string \<Rightarrow> string \<Rightarrow> Payload \<Rightarrow> World \<Rightarrow> World" where
  "storeFile env queryId' fileName obj w =
     (let filePath = [storagePath env, queryId', fileName]
      in emit (WriteFile filePath obj) (w\<lparr>files := (files w)(filePath \<mapsto> obj)\<rparr>))"

subsection \<open>runRemoteQuery\<close>

definition runRemoteQuery :: "Env \<Rightarrow> string option \<Rightarrow> CancellationToken \<Rightarrow> World \<Rightarrow> World" where
  "runRemoteQuery env uri token w0 =
     (let (credentials', w1) = Credentials_initialize env w0;
          target = (case uri of Some u \<Rightarrow> Some u | None \<Rightarrow> activeTextEditorUri env);
          querySubmission = runRemoteQuery_result env credentials' target False token;
          w2 = emit (RunRemoteQuery credentials' target False token) w1
      in case querySubmission of
           None \<Rightarrow> w2
         | Some submission \<Rightarrow>
             (case query submission of
                None \<Rightarrow> w2
              | Some q \<Rightarrow> executeCommand ''codeQL.monitorRemoteQuery'' (QueryPayload q) w2))"

subsection \<open>monitorRemoteQuery\<close>

text \<open>
  The result is \<open>Inr\<close> of the world the method leaves behind, or \<open>Inl\<close> when
  \<^verbatim>\<open>assertNever\<close> throws. The chain of tests on the workflow status ends in one of
  three ways: the method has returned (the \<^verbatim>\<open>return\<close> after a missing index),
  control falls through to the statement after the chain, or \<^verbatim>\<open>assertNever\<close> throws.
\<close>

datatype Flow = Returned World | FallThrough World | Threw Error

definition monitorQuery :: "Env \<Rightarrow> RemoteQuery \<Rightarrow> CancellationToken \<Rightarrow> World \<Rightarrow> RemoteQueryWorkflowResult \<times> World" where
  "monitorQuery env q token w = (monitorQuery_result env q token, emit (MonitorQuery q token) w)"

definition getRemoteQueryIndex :: "Env \<Rightarrow> Credentials \<Rightarrow> RemoteQuery \<Rightarrow> World \<Rightarrow> RemoteQueryResultIndex option \<times> World" where
  "getRemoteQueryIndex env c q w = (getRemoteQueryIndex_result env c q, emit (GetRemoteQueryIndex c q) w)"

definition monitorRemoteQuery :: "Env \<Rightarrow> RemoteQuery \<Rightarrow> CancellationToken \<Rightarrow> World \<Rightarrow> Error + World" where
  "monitorRemoteQuery env q cancellationToken w0 =
     (let queryId' = createQueryId env (queryName q);
          w1 = prepareStorageDirectory env queryId' w0;
          w2 = storeFile env queryId' ''query.json'' (QueryPayload q) w1;
          queryHistoryItem = newRemoteQueryHistoryItem env (queryName q) queryId' (storagePath env);
          (ref, w3) = addQuery queryHistoryItem w2;
          (credentials', w4) = Credentials_initialize env w3;
          (queryWorkflowResult, w5) = monitorQuery env q cancellationToken w4;
          executionEndTime' = now env;
          flow =
            (if RemoteQueryWorkflowResult.status queryWorkflowResult = CompletedSuccessfully then
               (let (resultIndex, w6) = getRemoteQueryIndex env credentials' q w5
                in case resultIndex of
                     None \<Rightarrow>
                       Returned (showAndLogErrorMessage
                         (''There was an issue retrieving the result for the query '' @ queryName q) w6)
                   | Some idx \<Rightarrow>
                       (let w7 = assign ref (\<lambda>i. i\<lparr>completed := True\<rparr>) w6;
                            w8 = assign ref (\<lambda>i. i\<lparr>status := QueryStatus.Completed\<rparr>) w7;
                            queryResult = mapQueryResult executionEndTime' idx queryId';
                            w9 = storeFile env queryId' ''query-result.json'' (ResultPayload queryResult) w8;
                            w10 = executeCommand ''codeQL.autoDownloadRemoteQueryResults''
                                    (ResultPayload queryResult) w9
                        in FallThrough (emit (AskToOpenResults q queryResult) w10)))
             else if RemoteQueryWorkflowResult.status queryWorkflowResult = CompletedUnsuccessfully then
               (let w6 = assign ref (\<lambda>i. i\<lparr>failureReason := error queryWorkflowResult\<rparr>) w5;
                    w7 = assign ref (\<lambda>i. i\<lparr>status := QueryStatus.Failed\<rparr>) w6
                in FallThrough (showAndLogErrorMessage
                     (''Remote query execution failed. Error: '' @ template_str (error queryWorkflowResult)) w7))
             else if RemoteQueryWorkflowResult.status queryWorkflowResult = Cancelled then
               (let w6 = assign ref (\<lambda>i. i\<lparr>failureReason := Some ''Cancelled''\<rparr>) w5;
                    w7 = assign ref (\<lambda>i. i\<lparr>status := QueryStatus.Failed\<rparr>) w6
                in FallThrough (showAndLogErrorMessage ''Remote query monitoring was cancelled'' w7))
             else if RemoteQueryWorkflowResult.status queryWorkflowResult = WorkflowStatus.InProgress then
               FallThrough (showAndLogErrorMessage
                 (''Unexpected status: ''
                    @ workflowStatus_str (RemoteQueryWorkflowResult.status queryWorkflowResult)) w5)
             else Threw AssertNever)
      in case flow of
           Returned w \<Rightarrow> Inr w
         | FallThrough w \<Rightarrow> Inr (refreshTreeView w)
         | Threw e \<Rightarrow> Inl e)"

subsection \<open>autoDownloadRemoteQueryResults\<close>

definition autoDownloadRemoteQueryResults :: "RemoteQueryResult \<Rightarrow> CancellationToken \<Rightarrow> World \<Rightarrow> World" where
  "autoDownloadRemoteQueryResults queryResult token w =
     emit (DownloadAnalysesResults (analysesToDownload queryResult) token) w"

section \<open>Order of events\<close>

text \<open>
  \<open>happens_before a b es\<close>: somewhere in \<open>es\<close> the event \<open>a\<close> occurs and, later,
  the event \<open>b\<close>.
\<close>

fun happens_before :: "'a \<Rightarrow> 'a \<Rightarrow> 'a list \<Rightarrow> bool" where
  "happens_before a b [] = False"
| "happens_before a b (e # es) = ((e = a \<and> b \<in> set es) \<or> happens_before a b es)"

section \<open>Example inputs\<close>

text \<open>
  Concrete inputs on which the theorems below are instantiated: an index of three
  entries whose artifact sizes are 100000, 400000 and 50000 bytes, a query named
  \<open>q\<close>, and a family of collaborator answers indexed by the workflow status, the
  error detail, the retrieved index and the submission result.
\<close>

definition sample_index :: RemoteQueryResultIndex where
  "sample_index =
     \<lparr> artifactsUrlPath = ''/repos/octo/controller/actions/artifacts'',
       items =
         [ \<lparr> artifactId = 11, RemoteQueryResultIndexItem.nwo = ''octo/alpha'',
             RemoteQueryResultIndexItem.resultCount = 3, bqrsFileSize = 100000, sarifFileSize = None \<rparr>,
           \<lparr> artifactId = 12, RemoteQueryResultIndexItem.nwo = ''octo/beta'',
             RemoteQueryResultIndexItem.resultCount = 40, bqrsFileSize = 90, sarifFileSize = Some 400000 \<rparr>,
           \<lparr> artifactId = 13, RemoteQueryResultIndexItem.nwo = ''octo/gamma'',
             RemoteQueryResultIndexItem.resultCount = 7, bqrsFileSize = 50000, sarifFileSize = Some 0 \<rparr> ] \<rparr>"

definition sample_result :: RemoteQueryResult where
  "sample_result = mapQueryResult 1700000000 sample_index ''q-V1StGXR8''"

definition sample_query :: RemoteQuery where
  "sample_query =
     \<lparr> queryName = ''q'', repositories = [''octo/alpha'', ''octo/beta'', ''octo/gamma''],
       actionsWorkflowRunId = 77 \<rparr>"

definition sample_item :: "string \<Rightarrow> string \<Rightarrow> string \<Rightarrow> RemoteQueryHistoryItem" where
  "sample_item name qid path =
     \<lparr> itemQueryName = name, itemQueryId = qid, itemStoragePath = path, completed = False,
       RemoteQueryHistoryItem.status = QueryStatus.InProgress, failureReason = None \<rparr>"

definition sample_env ::
  "WorkflowStatus \<Rightarrow> string option \<Rightarrow> RemoteQueryResultIndex option
     \<Rightarrow> RemoteQuerySubmissionResult option \<Rightarrow> Env" where
  "sample_env st err index submission =
     \<lparr> storagePath = ''/storage'', activeTextEditorUri = Some ''file:///w/q.ql'',
       nanoid = ''V1StGXR8'', now = 1700000000, credentials = Credentials ''token'',
       runRemoteQuery_result = (\<lambda>c u r t. submission),
       newRemoteQueryHistoryItem = sample_item,
       monitorQuery_result = (\<lambda>q t. \<lparr>RemoteQueryWorkflowResult.status = st, error = err\<rparr>),
       getRemoteQueryIndex_result = (\<lambda>c q. index) \<rparr>"

definition empty_world :: World where
  "empty_world = \<lparr> history = [], files = Map.empty, trace = [] \<rparr>"

section \<open>Numbers as text: reading back what was written\<close>

lemma digit_cases: "(d::nat) < 10 \<Longrightarrow> d \<in> {0, 1, 2, 3, 4, 5, 6, 7, 8, 9}"
  by auto

lemma digit_val_digit_char: "d < 10 \<Longrightarrow> digit_val (digit_char d) = d"
proof -
  assume "d < 10"
  then have "d \<in> {0, 1, 2, 3, 4, 5, 6, 7, 8, 9}" by (rule digit_cases)
  then show ?thesis
    by (auto simp: digit_val_def digit_char_def)
qed

lemma digit_char_not_minus: "digit_char d \<noteq> CHR ''-''"
proof -
  have "d mod 10 < 10" by simp
  then have "d mod 10 \<in> {0, 1, 2, 3, 4, 5, 6, 7, 8, 9}" by (rule digit_cases)
  then show ?thesis
    by (auto simp: digit_char_def)
qed

lemma read_digits_snoc: "read_digits (cs @ [c]) = 10 * read_digits cs + digit_val c"
  by (simp add: read_digits_def)

lemma read_digits_digits: "read_digits (digits n) = n"
proof (induction n rule: digits.induct)
  case (1 n)
  show ?case
  proof (cases "n < 10")
    case True
    then show ?thesis by (subst digits.simps) (simp add: read_digits_def digit_val_digit_char)
  next
    case False
    then have "read_digits (digits n) = 10 * read_digits (digits (n div 10)) + digit_val (digit_char (n mod 10))"
      by (subst digits.simps) (simp add: read_digits_snoc)
    also have "\<dots> = 10 * (n div 10) + n mod 10"
      using 1 False by (simp add: digit_val_digit_char)
    finally show ?thesis by simp
  qed
qed

lemma digits_hd: "\<exists>c cs. digits n = c # cs \<and> c \<noteq> CHR ''-''"
proof (induction n rule: digits.induct)
  case (1 n)
  show ?case
  proof (cases "n < 10")
    case True
    then show ?thesis by (subst digits.simps) (simp add: digit_char_not_minus)
  next
    case False
    with 1 obtain c cs where "digits (n div 10) = c # cs" "c \<noteq> CHR ''-''" by blast
    with False show ?thesis by (subst digits.simps) simp
  qed
qed

lemma read_num_String_num: "read_num (String_num n) = n"
proof (cases "n < 0")
  case True
  then show ?thesis by (simp add: read_num_def String_num_def read_digits_digits)
next
  case False
  obtain c cs where d: "digits (nat n) = c # cs" "c \<noteq> CHR ''-''" using digits_hd by blast
  have "read_digits (c # cs) = nat n" using read_digits_digits [of "nat n"] d by simp
  with False d show ?thesis by (simp add: read_num_def String_num_def)
qed


section \<open>Properties of the result mapper\<close>

lemma mapQueryResult_length:
  "length (analysisSummaries (mapQueryResult t idx qid)) = length (items idx)"
  by (simp add: mapQueryResult_def)

lemma mapQueryResult_nth:
  assumes "i < length (items idx)"
  shows "analysisSummaries (mapQueryResult t idx qid) ! i =
     \<lparr> AnalysisSummary.nwo = RemoteQueryResultIndexItem.nwo (items idx ! i),
       AnalysisSummary.resultCount = RemoteQueryResultIndexItem.resultCount (items idx ! i),
       fileSizeInBytes =
         (if truthy (sarifFileSize (items idx ! i)) then the (sarifFileSize (items idx ! i))
          else bqrsFileSize (items idx ! i)),
       AnalysisSummary.downloadLink =
         \<lparr> linkId = String_num (artifactId (items idx ! i)),
           urlPath = artifactsUrlPath idx @ ''/'' @ String_num (artifactId (items idx ! i)),
           innerFilePath =
             (if truthy (sarifFileSize (items idx ! i)) then ''results.sarif'' else ''results.bqrs''),
           queryId = qid \<rparr> \<rparr>"
  using assms by (simp add: mapQueryResult_def)

text \<open>
  Claim C3. For every entry of the result index, the mapped summary's size and kind are
  chosen together: when the entry's SARIF file size is present and nonzero,
  \<open>fileSizeInBytes\<close> is the SARIF size and the download link's inner file path is
  \<open>results.sarif\<close>; otherwise \<open>fileSizeInBytes\<close> is the BQRS size and the inner file
  path is \<open>results.bqrs\<close>. The mapper yields one summary per entry.
\<close>

theorem mapQueryResult_kind_and_size:
  assumes "i < length (items idx)"
  shows "length (analysisSummaries (mapQueryResult t idx qid)) = length (items idx) \<and>
    (if \<exists>n. sarifFileSize (items idx ! i) = Some n \<and> n \<noteq> 0
     then fileSizeInBytes (analysisSummaries (mapQueryResult t idx qid) ! i)
            = the (sarifFileSize (items idx ! i))
        \<and> innerFilePath (AnalysisSummary.downloadLink (analysisSummaries (mapQueryResult t idx qid) ! i))
            = ''results.sarif''
     else fileSizeInBytes (analysisSummaries (mapQueryResult t idx qid) ! i)
            = bqrsFileSize (items idx ! i)
        \<and> innerFilePath (AnalysisSummary.downloadLink (analysisSummaries (mapQueryResult t idx qid) ! i))
            = ''results.bqrs'')"
proof (cases "sarifFileSize (items idx ! i)")
  case None
  with assms show ?thesis
    by (simp add: mapQueryResult_nth mapQueryResult_length truthy_def)
next
  case (Some n)
  with assms show ?thesis
    by (simp add: mapQueryResult_nth mapQueryResult_length truthy_def)
qed

theorem mapQueryResult_kind_and_size_witness:
  "(0::nat) < length (items sample_index) \<and> (1::nat) < length (items sample_index)
   \<and> (2::nat) < length (items sample_index)
   \<and> length (analysisSummaries (mapQueryResult 1700000000 sample_index ''q-V1StGXR8'')) = 3
   \<and> fileSizeInBytes (analysisSummaries (mapQueryResult 1700000000 sample_index ''q-V1StGXR8'') ! 0) = 100000
   \<and> innerFilePath (AnalysisSummary.downloadLink
        (analysisSummaries (mapQueryResult 1700000000 sample_index ''q-V1StGXR8'') ! 0)) = ''results.bqrs''
   \<and> fileSizeInBytes (analysisSummaries (mapQueryResult 1700000000 sample_index ''q-V1StGXR8'') ! 1) = 400000
   \<and> innerFilePath (AnalysisSummary.downloadLink
        (analysisSummaries (mapQueryResult 1700000000 sample_index ''q-V1StGXR8'') ! 1)) = ''results.sarif''
   \<and> fileSizeInBytes (analysisSummaries (mapQueryResult 1700000000 sample_index ''q-V1StGXR8'') ! 2) = 50000
   \<and> innerFilePath (AnalysisSummary.downloadLink
        (analysisSummaries (mapQueryResult 1700000000 sample_index ''q-V1StGXR8'') ! 2)) = ''results.bqrs''"
proof -
  have h0: "(0::nat) < length (items sample_index)"
    and h1: "(1::nat) < length (items sample_index)"
    and h2: "(2::nat) < length (items sample_index)"
    by (simp_all add: sample_index_def)
  show ?thesis
    using h0 h1 h2
      mapQueryResult_kind_and_size [OF h0, of 1700000000 "''q-V1StGXR8''"]
      mapQueryResult_kind_and_size [OF h1, of 1700000000 "''q-V1StGXR8''"]
      mapQueryResult_kind_and_size [OF h2, of 1700000000 "''q-V1StGXR8''"]
    by (simp add: sample_index_def)
qed

text \<open>
  Claim C5. Mapping preserves order: the \<open>i\<close>-th summary carries the repository name
  and the result count of the \<open>i\<close>-th index entry, its download link's URL path is
  the index's artifacts URL path, a slash, and the entry's artifact identifier as a decimal
  numeral, the link's identifier reads back as the artifact identifier, and the link
  carries the query identifier handed to the mapper. Being a function of its arguments,
  the mapper is deterministic.
\<close>

theorem mapQueryResult_order_and_links:
  assumes "i < length (items idx)"
  shows "length (analysisSummaries (mapQueryResult t idx qid)) = length (items idx)
    \<and> AnalysisSummary.nwo (analysisSummaries (mapQueryResult t idx qid) ! i)
        = RemoteQueryResultIndexItem.nwo (items idx ! i)
    \<and> AnalysisSummary.resultCount (analysisSummaries (mapQueryResult t idx qid) ! i)
        = RemoteQueryResultIndexItem.resultCount (items idx ! i)
    \<and> urlPath (AnalysisSummary.downloadLink (analysisSummaries (mapQueryResult t idx qid) ! i))
        = artifactsUrlPath idx @ ''/'' @ String_num (artifactId (items idx ! i))
    \<and> read_num (linkId (AnalysisSummary.downloadLink (analysisSummaries (mapQueryResult t idx qid) ! i)))
        = artifactId (items idx ! i)
    \<and> queryId (AnalysisSummary.downloadLink (analysisSummaries (mapQueryResult t idx qid) ! i)) = qid"
  using assms by (simp add: mapQueryResult_nth mapQueryResult_length read_num_String_num)

theorem mapQueryResult_order_and_links_witness:
  "(1::nat) < length (items sample_index)
   \<and> AnalysisSummary.nwo (analysisSummaries (mapQueryResult 1700000000 sample_index ''q-V1StGXR8'') ! 1)
       = ''octo/beta''
   \<and> AnalysisSummary.resultCount (analysisSummaries (mapQueryResult 1700000000 sample_index ''q-V1StGXR8'') ! 1)
       = 40
   \<and> urlPath (AnalysisSummary.downloadLink
        (analysisSummaries (mapQueryResult 1700000000 sample_index ''q-V1StGXR8'') ! 1))
       = ''/repos/octo/controller/actions/artifacts/12''
   \<and> queryId (AnalysisSummary.downloadLink
        (analysisSummaries (mapQueryResult 1700000000 sample_index ''q-V1StGXR8'') ! 1)) = ''q-V1StGXR8''"
proof -
  have h1: "(1::nat) < length (items sample_index)"
    by (simp add: sample_index_def)
  show ?thesis
    using h1 mapQueryResult_order_and_links [OF h1, of 1700000000 "''q-V1StGXR8''"]
    by (simp add: sample_index_def String_num_def digits.simps digit_char_def)
qed

section \<open>Properties of the admission filter\<close>

lemma analysesToDownload_length:
  "length (analysesToDownload qr) =
     min autoDownloadMaxCount
       (length (filter (\<lambda>a. fileSizeInBytes a < autoDownloadMaxSize) (analysisSummaries qr)))"
  by (simp add: analysesToDownload_def min.commute)

lemma analysesToDownload_view:
  "map (\<lambda>r. (DownloadRequest.nwo r, DownloadRequest.resultCount r,
              DownloadRequest.downloadLink r, read_num (fileSize r))) (analysesToDownload qr)
   = map (\<lambda>a. (AnalysisSummary.nwo a, AnalysisSummary.resultCount a,
                AnalysisSummary.downloadLink a, fileSizeInBytes a))
       (take autoDownloadMaxCount
          (filter (\<lambda>a. fileSizeInBytes a < autoDownloadMaxSize) (analysisSummaries qr)))"
  by (simp add: analysesToDownload_def read_num_String_num)

lemma subseq_take_filter: "subseq (take n (filter P xs)) xs"
proof -
  have "subseq (take n (filter P xs)) (filter P xs)"
    by (metis append_take_drop_id prefix_def prefix_imp_subseq)
  moreover have "subseq (filter P xs) xs" by simp
  ultimately show ?thesis by (rule subseq_order.trans)
qed

lemma analysesToDownload_sizes:
  assumes "r \<in> set (analysesToDownload qr)"
  shows "read_num (fileSize r) < autoDownloadMaxSize"
proof -
  from assms obtain a
    where a: "a \<in> set (take autoDownloadMaxCount
                 (filter (\<lambda>a. fileSizeInBytes a < autoDownloadMaxSize) (analysisSummaries qr)))"
      and r: "fileSize r = String_num (fileSizeInBytes a)"
    by (auto simp: analysesToDownload_def)
  from a have "a \<in> set (filter (\<lambda>a. fileSizeInBytes a < autoDownloadMaxSize) (analysisSummaries qr))"
    by (rule in_set_takeD)
  then have "fileSizeInBytes a < autoDownloadMaxSize" by simp
  with r show ?thesis by (simp add: read_num_String_num)
qed

text \<open>
  Claim C4. With \<open>autoDownloadMaxSize = 300 * 1024\<close> and \<open>autoDownloadMaxCount = 100\<close>,
  the requests that \<open>autoDownloadRemoteQueryResults\<close> hands to the download of the
  analyses results number at most the minimum of
  the count cap and the number of summaries whose size is strictly below the size cap;
  seen as tuples of name, result count, link and size, they form a subsequence of the
  summaries, so the input's relative order is kept; and the size written in every request
  is strictly below the size cap.
\<close>

theorem admission_filter_bounds:
  "trace (autoDownloadRemoteQueryResults qr tok w)
     = trace w @ [DownloadAnalysesResults (analysesToDownload qr) tok]
   \<and> autoDownloadMaxSize = 300 * 1024 \<and> autoDownloadMaxCount = 100
   \<and> length (analysesToDownload qr)
       \<le> min autoDownloadMaxCount
           (length (filter (\<lambda>a. fileSizeInBytes a < autoDownloadMaxSize) (analysisSummaries qr)))
   \<and> subseq
       (map (\<lambda>r. (DownloadRequest.nwo r, DownloadRequest.resultCount r,
                   DownloadRequest.downloadLink r, read_num (fileSize r))) (analysesToDownload qr))
       (map (\<lambda>a. (AnalysisSummary.nwo a, AnalysisSummary.resultCount a,
                   AnalysisSummary.downloadLink a, fileSizeInBytes a)) (analysisSummaries qr))
   \<and> (\<forall>r \<in> set (analysesToDownload qr). read_num (fileSize r) < autoDownloadMaxSize)"
proof -
  have caps: "autoDownloadMaxSize = 300 * 1024 \<and> autoDownloadMaxCount = 100"
    by (simp add: autoDownloadMaxSize_def autoDownloadMaxCount_def)
  have len: "length (analysesToDownload qr)
       \<le> min autoDownloadMaxCount
           (length (filter (\<lambda>a. fileSizeInBytes a < autoDownloadMaxSize) (analysisSummaries qr)))"
    by (simp only: analysesToDownload_length order_refl)
  have ord: "subseq
       (map (\<lambda>r. (DownloadRequest.nwo r, DownloadRequest.resultCount r,
                   DownloadRequest.downloadLink r, read_num (fileSize r))) (analysesToDownload qr))
       (map (\<lambda>a. (AnalysisSummary.nwo a, AnalysisSummary.resultCount a,
                   AnalysisSummary.downloadLink a, fileSizeInBytes a)) (analysisSummaries qr))"
    unfolding analysesToDownload_view by (rule subseq_map) (rule subseq_take_filter)
  have sz: "\<forall>r \<in> set (analysesToDownload qr). read_num (fileSize r) < autoDownloadMaxSize"
    using analysesToDownload_sizes by blast
  have req: "trace (autoDownloadRemoteQueryResults qr tok w)
     = trace w @ [DownloadAnalysesResults (analysesToDownload qr) tok]"
    by (simp add: autoDownloadRemoteQueryResults_def emit_def)
  from req caps len ord sz show ?thesis by blast
qed

lemma sample_requests:
  "analysesToDownload sample_result =
     [ \<lparr> DownloadRequest.nwo = ''octo/alpha'', DownloadRequest.resultCount = 3,
         DownloadRequest.downloadLink =
           \<lparr> linkId = ''11'', urlPath = ''/repos/octo/controller/actions/artifacts/11'',
             innerFilePath = ''results.bqrs'', queryId = ''q-V1StGXR8'' \<rparr>,
         fileSize = ''100000'' \<rparr>,
       \<lparr> DownloadRequest.nwo = ''octo/gamma'', DownloadRequest.resultCount = 7,
         DownloadRequest.downloadLink =
           \<lparr> linkId = ''13'', urlPath = ''/repos/octo/controller/actions/artifacts/13'',
             innerFilePath = ''results.bqrs'', queryId = ''q-V1StGXR8'' \<rparr>,
         fileSize = ''50000'' \<rparr> ]"
  by (simp add: analysesToDownload_def sample_result_def mapQueryResult_def sample_index_def
      truthy_def autoDownloadMaxSize_def autoDownloadMaxCount_def String_num_def digits.simps
      digit_char_def)

theorem admission_filter_bounds_witness:
  "map DownloadRequest.nwo (analysesToDownload sample_result) = [''octo/alpha'', ''octo/gamma'']
   \<and> map fileSize (analysesToDownload sample_result) = [''100000'', ''50000'']
   \<and> length (analysesToDownload sample_result) \<le> 100
   \<and> map (\<lambda>r. read_num (fileSize r)) (analysesToDownload sample_result) = [100000, 50000]
   \<and> read_num ''100000'' < autoDownloadMaxSize \<and> read_num ''50000'' < autoDownloadMaxSize"
  using admission_filter_bounds [of sample_result "CancellationToken False" empty_world]
  by (simp add: sample_requests read_num_def read_digits_def digit_val_def
      autoDownloadMaxSize_def autoDownloadMaxCount_def)

section \<open>Order of events, read by position\<close>

lemma happens_before_iff:
  "happens_before a b es \<longleftrightarrow> (\<exists>i j. i < j \<and> j < length es \<and> es ! i = a \<and> es ! j = b)"
proof (induction es)
  case Nil
  then show ?case by simp
next
  case (Cons e es)
  show ?case
  proof
    assume "happens_before a b (e # es)"
    then consider "e = a" "b \<in> set es" | "happens_before a b es" by auto
    then show "\<exists>i j. i < j \<and> j < length (e # es) \<and> (e # es) ! i = a \<and> (e # es) ! j = b"
    proof cases
      case 1
      then obtain k where "k < length es" "es ! k = b" by (auto simp: in_set_conv_nth)
      with 1 have "0 < Suc k \<and> Suc k < length (e # es) \<and> (e # es) ! 0 = a \<and> (e # es) ! Suc k = b"
        by simp
      then show ?thesis by blast
    next
      case 2
      with Cons.IH obtain i j where "i < j" "j < length es" "es ! i = a" "es ! j = b" by blast
      then have "Suc i < Suc j \<and> Suc j < length (e # es) \<and> (e # es) ! Suc i = a \<and> (e # es) ! Suc j = b"
        by simp
      then show ?thesis by blast
    qed
  next
    assume "\<exists>i j. i < j \<and> j < length (e # es) \<and> (e # es) ! i = a \<and> (e # es) ! j = b"
    then obtain i j where ij: "i < j" "j < length (e # es)" "(e # es) ! i = a" "(e # es) ! j = b"
      by blast
    from ij(1) obtain j' where j': "j = Suc j'" by (cases j) auto
    show "happens_before a b (e # es)"
    proof (cases i)
      case 0
      with ij j' have "e = a" "b \<in> set es" by auto
      then show ?thesis by simp
    next
      case (Suc i')
      with ij j' have "i' < j' \<and> j' < length es \<and> es ! i' = a \<and> es ! j' = b" by auto
      with Cons.IH have "happens_before a b es" by blast
      then show ?thesis by simp
    qed
  qed
qed

section \<open>The effects of monitorRemoteQuery, outcome by outcome\<close>

lemmas effect_defs =
  emit_def Credentials_initialize_def executeCommand_def showAndLogErrorMessage_def
  addQuery_def assign_def refreshTreeView_def prepareStorageDirectory_def storeFile_def
  monitorQuery_def getRemoteQueryIndex_def

lemma monitor_no_index:
  assumes "RemoteQueryWorkflowResult.status (monitorQuery_result env q tok) = CompletedSuccessfully"
    and "getRemoteQueryIndex_result env (credentials env) q = None"
  shows "monitorRemoteQuery env q tok w0 =
    Inr (w0\<lparr>
      history := history w0
        @ [newRemoteQueryHistoryItem env (queryName q) (createQueryId env (queryName q)) (storagePath env)],
      files := (files w0)
        ([storagePath env, createQueryId env (queryName q), ''query.json''] \<mapsto> QueryPayload q),
      trace := trace w0 @
        [CreateTimestampFile [storagePath env, createQueryId env (queryName q)],
         WriteFile [storagePath env, createQueryId env (queryName q), ''query.json''] (QueryPayload q),
         AddQuery (newRemoteQueryHistoryItem env (queryName q) (createQueryId env (queryName q)) (storagePath env)),
         CredentialsInitialize,
         MonitorQuery q tok,
         GetRemoteQueryIndex (credentials env) q,
         ShowAndLogErrorMessage (''There was an issue retrieving the result for the query '' @ queryName q)]\<rparr>)"
  using assms by (simp add: monitorRemoteQuery_def effect_defs Let_def)

lemma monitor_with_index:
  assumes "RemoteQueryWorkflowResult.status (monitorQuery_result env q tok) = CompletedSuccessfully"
    and "getRemoteQueryIndex_result env (credentials env) q = Some idx"
  shows "monitorRemoteQuery env q tok w0 =
    Inr (w0\<lparr>
      history := history w0
        @ [(newRemoteQueryHistoryItem env (queryName q) (createQueryId env (queryName q)) (storagePath env))
             \<lparr>completed := True, RemoteQueryHistoryItem.status := QueryStatus.Completed\<rparr>],
      files := (files w0)
        ([storagePath env, createQueryId env (queryName q), ''query.json''] \<mapsto> QueryPayload q,
         [storagePath env, createQueryId env (queryName q), ''query-result.json''] \<mapsto>
           ResultPayload (mapQueryResult (now env) idx (createQueryId env (queryName q)))),
      trace := trace w0 @
        [CreateTimestampFile [storagePath env, createQueryId env (queryName q)],
         WriteFile [storagePath env, createQueryId env (queryName q), ''query.json''] (QueryPayload q),
         AddQuery (newRemoteQueryHistoryItem env (queryName q) (createQueryId env (queryName q)) (storagePath env)),
         CredentialsInitialize,
         MonitorQuery q tok,
         GetRemoteQueryIndex (credentials env) q,
         WriteFile [storagePath env, createQueryId env (queryName q), ''query-result.json'']
           (ResultPayload (mapQueryResult (now env) idx (createQueryId env (queryName q)))),
         ExecuteCommand ''codeQL.autoDownloadRemoteQueryResults''
           (ResultPayload (mapQueryResult (now env) idx (createQueryId env (queryName q)))),
         AskToOpenResults q (mapQueryResult (now env) idx (createQueryId env (queryName q))),
         RefreshTreeView]\<rparr>)"
  using assms by (simp add: monitorRemoteQuery_def effect_defs Let_def)

lemma monitor_unsuccessful:
  assumes "RemoteQueryWorkflowResult.status (monitorQuery_result env q tok) = CompletedUnsuccessfully"
  shows "monitorRemoteQuery env q tok w0 =
    Inr (w0\<lparr>
      history := history w0
        @ [(newRemoteQueryHistoryItem env (queryName q) (createQueryId env (queryName q)) (storagePath env))
             \<lparr>failureReason := error (monitorQuery_result env q tok),
              RemoteQueryHistoryItem.status := QueryStatus.Failed\<rparr>],
      files := (files w0)
        ([storagePath env, createQueryId env (queryName q), ''query.json''] \<mapsto> QueryPayload q),
      trace := trace w0 @
        [CreateTimestampFile [storagePath env, createQueryId env (queryName q)],
         WriteFile [storagePath env, createQueryId env (queryName q), ''query.json''] (QueryPayload q),
         AddQuery (newRemoteQueryHistoryItem env (queryName q) (createQueryId env (queryName q)) (storagePath env)),
         CredentialsInitialize,
         MonitorQuery q tok,
         ShowAndLogErrorMessage (''Remote query execution failed. Error: ''
           @ template_str (error (monitorQuery_result env q tok))),
         RefreshTreeView]\<rparr>)"
  using assms by (simp add: monitorRemoteQuery_def effect_defs Let_def)

lemma monitor_cancelled:
  assumes "RemoteQueryWorkflowResult.status (monitorQuery_result env q tok) = Cancelled"
  shows "monitorRemoteQuery env q tok w0 =
    Inr (w0\<lparr>
      history := history w0
        @ [(newRemoteQueryHistoryItem env (queryName q) (createQueryId env (queryName q)) (storagePath env))
             \<lparr>failureReason := Some ''Cancelled'',
              RemoteQueryHistoryItem.status := QueryStatus.Failed\<rparr>],
      files := (files w0)
        ([storagePath env, createQueryId env (queryName q), ''query.json''] \<mapsto> QueryPayload q),
      trace := trace w0 @
        [CreateTimestampFile [storagePath env, createQueryId env (queryName q)],
         WriteFile [storagePath env, createQueryId env (queryName q), ''query.json''] (QueryPayload q),
         AddQuery (newRemoteQueryHistoryItem env (queryName q) (createQueryId env (queryName q)) (storagePath env)),
         CredentialsInitialize,
         MonitorQuery q tok,
         ShowAndLogErrorMessage ''Remote query monitoring was cancelled'',
         RefreshTreeView]\<rparr>)"
  using assms by (simp add: monitorRemoteQuery_def effect_defs Let_def)

lemma monitor_in_progress:
  assumes "RemoteQueryWorkflowResult.status (monitorQuery_result env q tok) = WorkflowStatus.InProgress"
  shows "monitorRemoteQuery env q tok w0 =
    Inr (w0\<lparr>
      history := history w0
        @ [newRemoteQueryHistoryItem env (queryName q) (createQueryId env (queryName q)) (storagePath env)],
      files := (files w0)
        ([storagePath env, createQueryId env (queryName q), ''query.json''] \<mapsto> QueryPayload q),
      trace := trace w0 @
        [CreateTimestampFile [storagePath env, createQueryId env (queryName q)],
         WriteFile [storagePath env, createQueryId env (queryName q), ''query.json''] (QueryPayload q),
         AddQuery (newRemoteQueryHistoryItem env (queryName q) (createQueryId env (queryName q)) (storagePath env)),
         CredentialsInitialize,
         MonitorQuery q tok,
         ShowAndLogErrorMessage ''Unexpected status: InProgress'',
         RefreshTreeView]\<rparr>)"
  using assms by (simp add: monitorRemoteQuery_def effect_defs Let_def workflowStatus_str_def)

text \<open>
  In every outcome but the missing index, control reaches the statement after the chain of
  tests, and the last effect is the refresh of the history view.
\<close>

lemma monitor_refreshes_otherwise:
  assumes "RemoteQueryWorkflowResult.status (monitorQuery_result env q tok) \<noteq> CompletedSuccessfully
           \<or> getRemoteQueryIndex_result env (credentials env) q \<noteq> None"
  shows "\<exists>w'. monitorRemoteQuery env q tok w0 = Inr w' \<and> last (trace w') = RefreshTreeView"
proof (cases "RemoteQueryWorkflowResult.status (monitorQuery_result env q tok)")
  case InProgress
  then show ?thesis by (simp add: monitor_in_progress)
next
  case CompletedSuccessfully
  with assms obtain idx where "getRemoteQueryIndex_result env (credentials env) q = Some idx"
    by auto
  with CompletedSuccessfully show ?thesis by (simp add: monitor_with_index)
next
  case CompletedUnsuccessfully
  then show ?thesis by (simp add: monitor_unsuccessful)
next
  case Cancelled
  then show ?thesis by (simp add: monitor_cancelled)
qed

section \<open>Claims about the orchestrator\<close>

lemmas sample_defs =
  sample_env_def sample_query_def sample_item_def empty_world_def createQueryId_def

text \<open>
  Claim C2. When monitoring ends with \<open>CompletedSuccessfully\<close> and the index retrieval
  returns nothing, the tracked history entry is the item as it was constructed: its
  status and its completed flag are unchanged. An error message is shown and logged, no
  result summary is written, and the auto-download command is not started.
\<close>

theorem monitorRemoteQuery_index_missing:
  assumes "RemoteQueryWorkflowResult.status (monitorQuery_result env q tok) = CompletedSuccessfully"
    and "getRemoteQueryIndex_result env (credentials env) q = None"
    and "qid = createQueryId env (queryName q)"
    and "item = newRemoteQueryHistoryItem env (queryName q) qid (storagePath env)"
  shows "\<exists>w' evs. monitorRemoteQuery env q tok w0 = Inr w'
    \<and> history w' = history w0 @ [item]
    \<and> RemoteQueryHistoryItem.status (history w' ! length (history w0)) = RemoteQueryHistoryItem.status item
    \<and> completed (history w' ! length (history w0)) = completed item
    \<and> trace w' = trace w0 @ evs
    \<and> evs = [CreateTimestampFile [storagePath env, qid],
              WriteFile [storagePath env, qid, ''query.json''] (QueryPayload q),
              AddQuery item, CredentialsInitialize, MonitorQuery q tok,
              GetRemoteQueryIndex (credentials env) q,
              ShowAndLogErrorMessage
                (''There was an issue retrieving the result for the query '' @ queryName q)]
    \<and> (\<forall>p r. WriteFile p (ResultPayload r) \<notin> set evs)
    \<and> (\<forall>a. ExecuteCommand ''codeQL.autoDownloadRemoteQueryResults'' a \<notin> set evs)
    \<and> files w' = (files w0)([storagePath env, qid, ''query.json''] \<mapsto> QueryPayload q)"
  using assms by (simp add: monitor_no_index)

theorem monitorRemoteQuery_index_missing_witness:
  "createQueryId (sample_env CompletedSuccessfully None None None) (queryName sample_query) = ''q-V1StGXR8''
   \<and> newRemoteQueryHistoryItem (sample_env CompletedSuccessfully None None None) (queryName sample_query)
       ''q-V1StGXR8'' (storagePath (sample_env CompletedSuccessfully None None None))
       = sample_item ''q'' ''q-V1StGXR8'' ''/storage''
   \<and> RemoteQueryWorkflowResult.status
     (monitorQuery_result (sample_env CompletedSuccessfully None None None)
        sample_query (CancellationToken False)) = CompletedSuccessfully
   \<and> getRemoteQueryIndex_result (sample_env CompletedSuccessfully None None None)
        (credentials (sample_env CompletedSuccessfully None None None))
        sample_query = None
   \<and> (\<exists>w'. monitorRemoteQuery (sample_env CompletedSuccessfully None None None)
          sample_query (CancellationToken False) empty_world = Inr w'
        \<and> map RemoteQueryHistoryItem.status (history w') = [QueryStatus.InProgress]
        \<and> map completed (history w') = [False]
        \<and> trace w' =
            [CreateTimestampFile [''/storage'', ''q-V1StGXR8''],
             WriteFile [''/storage'', ''q-V1StGXR8'', ''query.json''] (QueryPayload sample_query),
             AddQuery (sample_item ''q'' ''q-V1StGXR8'' ''/storage''),
             CredentialsInitialize,
             MonitorQuery sample_query (CancellationToken False),
             GetRemoteQueryIndex (Credentials ''token'') sample_query,
             ShowAndLogErrorMessage ''There was an issue retrieving the result for the query q''])"
  using monitorRemoteQuery_index_missing
    [of "sample_env CompletedSuccessfully None None None" sample_query
        "CancellationToken False" "''q-V1StGXR8''" "sample_item ''q'' ''q-V1StGXR8'' ''/storage''"
        empty_world]
  by (auto simp: sample_defs)

text \<open>
  Claim C6. When monitoring ends with \<open>Cancelled\<close>, the tracked history entry ends with
  status \<open>Failed\<close> and failure reason \<open>Cancelled\<close>, the cancellation message is shown
  and logged, and no result summary is written.
\<close>

theorem monitorRemoteQuery_cancelled:
  assumes "RemoteQueryWorkflowResult.status (monitorQuery_result env q tok) = Cancelled"
    and "qid = createQueryId env (queryName q)"
    and "item = newRemoteQueryHistoryItem env (queryName q) qid (storagePath env)"
  shows "\<exists>w' evs. monitorRemoteQuery env q tok w0 = Inr w'
    \<and> history w' = history w0
         @ [item\<lparr>failureReason := Some ''Cancelled'', RemoteQueryHistoryItem.status := QueryStatus.Failed\<rparr>]
    \<and> RemoteQueryHistoryItem.status (history w' ! length (history w0)) = QueryStatus.Failed
    \<and> failureReason (history w' ! length (history w0)) = Some ''Cancelled''
    \<and> trace w' = trace w0 @ evs
    \<and> evs = [CreateTimestampFile [storagePath env, qid],
              WriteFile [storagePath env, qid, ''query.json''] (QueryPayload q),
              AddQuery item, CredentialsInitialize, MonitorQuery q tok,
              ShowAndLogErrorMessage ''Remote query monitoring was cancelled'',
              RefreshTreeView]
    \<and> (\<forall>p r. WriteFile p (ResultPayload r) \<notin> set evs)
    \<and> files w' = (files w0)([storagePath env, qid, ''query.json''] \<mapsto> QueryPayload q)"
  using assms by (simp add: monitor_cancelled)

theorem monitorRemoteQuery_cancelled_witness:
  "createQueryId (sample_env Cancelled None None None) (queryName sample_query) = ''q-V1StGXR8''
   \<and> newRemoteQueryHistoryItem (sample_env Cancelled None None None) (queryName sample_query)
       ''q-V1StGXR8'' (storagePath (sample_env Cancelled None None None))
       = sample_item ''q'' ''q-V1StGXR8'' ''/storage''
   \<and> RemoteQueryWorkflowResult.status
     (monitorQuery_result (sample_env Cancelled None None None) sample_query (CancellationToken True))
     = Cancelled
   \<and> (\<exists>w'. monitorRemoteQuery (sample_env Cancelled None None None)
          sample_query (CancellationToken True) empty_world = Inr w'
        \<and> map RemoteQueryHistoryItem.status (history w') = [QueryStatus.Failed]
        \<and> map failureReason (history w') = [Some ''Cancelled'']
        \<and> trace w' =
            [CreateTimestampFile [''/storage'', ''q-V1StGXR8''],
             WriteFile [''/storage'', ''q-V1StGXR8'', ''query.json''] (QueryPayload sample_query),
             AddQuery (sample_item ''q'' ''q-V1StGXR8'' ''/storage''),
             CredentialsInitialize,
             MonitorQuery sample_query (CancellationToken True),
             ShowAndLogErrorMessage ''Remote query monitoring was cancelled'',
             RefreshTreeView])"
  using monitorRemoteQuery_cancelled
    [of "sample_env Cancelled None None None" sample_query
        "CancellationToken True" "''q-V1StGXR8''" "sample_item ''q'' ''q-V1StGXR8'' ''/storage''"
        empty_world]
  by (auto simp: sample_defs)


text \<open>
  Claim C10. When monitoring ends with \<open>InProgress\<close>, the method reports
  \<open>Unexpected status: InProgress\<close> and nothing else is done for the outcome: the tracked
  entry's status, completed flag and failure reason are those of the item as constructed,
  no result summary is written and the auto-download command is not started.
\<close>

theorem monitorRemoteQuery_in_progress:
  assumes "RemoteQueryWorkflowResult.status (monitorQuery_result env q tok) = WorkflowStatus.InProgress"
    and "qid = createQueryId env (queryName q)"
    and "item = newRemoteQueryHistoryItem env (queryName q) qid (storagePath env)"
  shows "\<exists>w' evs. monitorRemoteQuery env q tok w0 = Inr w'
    \<and> history w' = history w0 @ [item]
    \<and> RemoteQueryHistoryItem.status (history w' ! length (history w0)) = RemoteQueryHistoryItem.status item
    \<and> completed (history w' ! length (history w0)) = completed item
    \<and> failureReason (history w' ! length (history w0)) = failureReason item
    \<and> trace w' = trace w0 @ evs
    \<and> evs = [CreateTimestampFile [storagePath env, qid],
              WriteFile [storagePath env, qid, ''query.json''] (QueryPayload q),
              AddQuery item, CredentialsInitialize, MonitorQuery q tok,
              ShowAndLogErrorMessage ''Unexpected status: InProgress'',
              RefreshTreeView]
    \<and> (\<forall>p r. WriteFile p (ResultPayload r) \<notin> set evs)
    \<and> (\<forall>a. ExecuteCommand ''codeQL.autoDownloadRemoteQueryResults'' a \<notin> set evs)
    \<and> files w' = (files w0)([storagePath env, qid, ''query.json''] \<mapsto> QueryPayload q)"
  using assms by (simp add: monitor_in_progress)

theorem monitorRemoteQuery_in_progress_witness:
  "createQueryId (sample_env WorkflowStatus.InProgress None None None) (queryName sample_query) = ''q-V1StGXR8''
   \<and> newRemoteQueryHistoryItem (sample_env WorkflowStatus.InProgress None None None) (queryName sample_query)
       ''q-V1StGXR8'' (storagePath (sample_env WorkflowStatus.InProgress None None None))
       = sample_item ''q'' ''q-V1StGXR8'' ''/storage''
   \<and> RemoteQueryWorkflowResult.status
     (monitorQuery_result (sample_env WorkflowStatus.InProgress None None None) sample_query
        (CancellationToken False)) = WorkflowStatus.InProgress
   \<and> (\<exists>w'. monitorRemoteQuery (sample_env WorkflowStatus.InProgress None None None)
          sample_query (CancellationToken False) empty_world = Inr w'
        \<and> history w' = [sample_item ''q'' ''q-V1StGXR8'' ''/storage'']
        \<and> trace w' =
            [CreateTimestampFile [''/storage'', ''q-V1StGXR8''],
             WriteFile [''/storage'', ''q-V1StGXR8'', ''query.json''] (QueryPayload sample_query),
             AddQuery (sample_item ''q'' ''q-V1StGXR8'' ''/storage''),
             CredentialsInitialize,
             MonitorQuery sample_query (CancellationToken False),
             ShowAndLogErrorMessage ''Unexpected status: InProgress'',
             RefreshTreeView])"
  using monitorRemoteQuery_in_progress
    [of "sample_env WorkflowStatus.InProgress None None None" sample_query
        "CancellationToken False" "''q-V1StGXR8''" "sample_item ''q'' ''q-V1StGXR8'' ''/storage''"
        empty_world]
  by (auto simp: sample_defs)


text \<open>
  Claim C7. In every run the job descriptor is written before the item is added to the
  history, and the item is added before monitoring starts. On success with an index, the
  index is retrieved after monitoring, the result written to \<open>query-result.json\<close> is
  the mapper's output on that index (so mapping precedes the write), and the write precedes
  the start of the auto-download command, which receives the same result. No event of a
  run occurs twice, so the order is unambiguous.
\<close>

theorem monitorRemoteQuery_effect_order:
  assumes "qid = createQueryId env (queryName q)"
    and "item = newRemoteQueryHistoryItem env (queryName q) qid (storagePath env)"
  shows "\<exists>w' evs. monitorRemoteQuery env q tok w0 = Inr w' \<and> trace w' = trace w0 @ evs
    \<and> distinct evs
    \<and> happens_before (WriteFile [storagePath env, qid, ''query.json''] (QueryPayload q))
         (AddQuery item) evs
    \<and> happens_before (AddQuery item) (MonitorQuery q tok) evs
    \<and> (\<forall>idx. RemoteQueryWorkflowResult.status (monitorQuery_result env q tok) = CompletedSuccessfully
            \<and> getRemoteQueryIndex_result env (credentials env) q = Some idx \<longrightarrow>
          happens_before (MonitorQuery q tok) (GetRemoteQueryIndex (credentials env) q) evs
        \<and> happens_before (GetRemoteQueryIndex (credentials env) q)
            (WriteFile [storagePath env, qid, ''query-result.json'']
               (ResultPayload (mapQueryResult (now env) idx qid))) evs
        \<and> happens_before
            (WriteFile [storagePath env, qid, ''query-result.json'']
               (ResultPayload (mapQueryResult (now env) idx qid)))
            (ExecuteCommand ''codeQL.autoDownloadRemoteQueryResults''
               (ResultPayload (mapQueryResult (now env) idx qid))) evs)"
proof (cases "RemoteQueryWorkflowResult.status (monitorQuery_result env q tok)")
  case InProgress
  with assms show ?thesis by (simp add: monitor_in_progress)
next
  case CompletedSuccessfully
  show ?thesis
  proof (cases "getRemoteQueryIndex_result env (credentials env) q")
    case None
    with CompletedSuccessfully assms show ?thesis by (simp add: monitor_no_index)
  next
    case (Some idx)
    with CompletedSuccessfully assms show ?thesis by (simp add: monitor_with_index)
  qed
next
  case CompletedUnsuccessfully
  with assms show ?thesis by (simp add: monitor_unsuccessful)
next
  case Cancelled
  with assms show ?thesis by (simp add: monitor_cancelled)
qed

theorem monitorRemoteQuery_effect_order_witness:
  "createQueryId (sample_env CompletedSuccessfully None (Some sample_index) None) (queryName sample_query) = ''q-V1StGXR8''
   \<and> newRemoteQueryHistoryItem (sample_env CompletedSuccessfully None (Some sample_index) None) (queryName sample_query)
       ''q-V1StGXR8'' (storagePath (sample_env CompletedSuccessfully None (Some sample_index) None))
       = sample_item ''q'' ''q-V1StGXR8'' ''/storage''
   \<and> RemoteQueryWorkflowResult.status
     (monitorQuery_result (sample_env CompletedSuccessfully None (Some sample_index) None) sample_query
        (CancellationToken False)) = CompletedSuccessfully
   \<and> getRemoteQueryIndex_result (sample_env CompletedSuccessfully None (Some sample_index) None)
        (credentials (sample_env CompletedSuccessfully None (Some sample_index) None)) sample_query
       = Some sample_index
   \<and> (\<exists>w'. monitorRemoteQuery (sample_env CompletedSuccessfully None (Some sample_index) None)
          sample_query (CancellationToken False) empty_world = Inr w'
        \<and> happens_before (WriteFile [''/storage'', ''q-V1StGXR8'', ''query.json''] (QueryPayload sample_query))
             (AddQuery (sample_item ''q'' ''q-V1StGXR8'' ''/storage'')) (trace w')
        \<and> happens_before (AddQuery (sample_item ''q'' ''q-V1StGXR8'' ''/storage''))
             (MonitorQuery sample_query (CancellationToken False)) (trace w')
        \<and> happens_before (WriteFile [''/storage'', ''q-V1StGXR8'', ''query-result.json'']
               (ResultPayload sample_result))
             (ExecuteCommand ''codeQL.autoDownloadRemoteQueryResults'' (ResultPayload sample_result))
             (trace w'))"
  using monitorRemoteQuery_effect_order
    [of "''q-V1StGXR8''" "sample_env CompletedSuccessfully None (Some sample_index) None" sample_query
        "sample_item ''q'' ''q-V1StGXR8'' ''/storage''" "CancellationToken False" empty_world]
  by (auto simp: sample_env_def sample_query_def empty_world_def createQueryId_def sample_result_def)


text \<open>
  Claim C9. The completed flag is set, together with status \<open>Completed\<close>, exactly on the
  run that ends with \<open>CompletedSuccessfully\<close> and retrieves an index, and that is the run
  which writes a result summary. On every other run the flag keeps the value the item was
  constructed with; after \<open>CompletedUnsuccessfully\<close> and \<open>Cancelled\<close> the status is
  \<open>Failed\<close>. For an item constructed with the flag unset, the entry is completed if
  and only if a result summary was written.
\<close>

theorem completed_only_with_summary:
  assumes "qid = createQueryId env (queryName q)"
    and "item = newRemoteQueryHistoryItem env (queryName q) qid (storagePath env)"
  shows "\<exists>w' evs entry. monitorRemoteQuery env q tok w0 = Inr w' \<and> trace w' = trace w0 @ evs
    \<and> history w' = history w0 @ [entry]
    \<and> (if RemoteQueryWorkflowResult.status (monitorQuery_result env q tok) = CompletedSuccessfully
            \<and> getRemoteQueryIndex_result env (credentials env) q \<noteq> None
        then completed entry \<and> RemoteQueryHistoryItem.status entry = QueryStatus.Completed
           \<and> (\<exists>p r. WriteFile p (ResultPayload r) \<in> set evs)
        else completed entry = completed item
           \<and> (\<forall>p r. WriteFile p (ResultPayload r) \<notin> set evs))
    \<and> (RemoteQueryWorkflowResult.status (monitorQuery_result env q tok) = CompletedUnsuccessfully
        \<or> RemoteQueryWorkflowResult.status (monitorQuery_result env q tok) = Cancelled
        \<longrightarrow> RemoteQueryHistoryItem.status entry = QueryStatus.Failed
            \<and> completed entry = completed item)
    \<and> (\<not> completed item \<longrightarrow>
          (completed entry \<longleftrightarrow> (\<exists>p r. WriteFile p (ResultPayload r) \<in> set evs)))"
proof (cases "RemoteQueryWorkflowResult.status (monitorQuery_result env q tok)")
  case InProgress
  with assms show ?thesis by (simp add: monitor_in_progress)
next
  case CompletedSuccessfully
  show ?thesis
  proof (cases "getRemoteQueryIndex_result env (credentials env) q")
    case None
    with CompletedSuccessfully assms show ?thesis by (simp add: monitor_no_index)
  next
    case (Some idx)
    with CompletedSuccessfully assms show ?thesis by (simp add: monitor_with_index)
  qed
next
  case CompletedUnsuccessfully
  with assms show ?thesis by (simp add: monitor_unsuccessful)
next
  case Cancelled
  with assms show ?thesis by (simp add: monitor_cancelled)
qed

theorem completed_only_with_summary_witness:
  "createQueryId (sample_env Cancelled None (Some sample_index) None) (queryName sample_query) = ''q-V1StGXR8''
   \<and> newRemoteQueryHistoryItem (sample_env Cancelled None (Some sample_index) None) (queryName sample_query)
       ''q-V1StGXR8'' (storagePath (sample_env Cancelled None (Some sample_index) None))
       = sample_item ''q'' ''q-V1StGXR8'' ''/storage''
   \<and> \<not> completed (sample_item ''q'' ''q-V1StGXR8'' ''/storage'')
   \<and> RemoteQueryWorkflowResult.status
       (monitorQuery_result (sample_env Cancelled None (Some sample_index) None) sample_query
          (CancellationToken True)) = Cancelled
   \<and> (\<exists>w'. monitorRemoteQuery (sample_env Cancelled None (Some sample_index) None)
          sample_query (CancellationToken True) empty_world = Inr w'
        \<and> map completed (history w') = [False]
        \<and> map RemoteQueryHistoryItem.status (history w') = [QueryStatus.Failed]
        \<and> files w' [''/storage'', ''q-V1StGXR8'', ''query-result.json''] = None)
   \<and> RemoteQueryWorkflowResult.status
       (monitorQuery_result (sample_env CompletedSuccessfully None (Some sample_index) None) sample_query
          (CancellationToken False)) = CompletedSuccessfully
   \<and> getRemoteQueryIndex_result (sample_env CompletedSuccessfully None (Some sample_index) None)
        (credentials (sample_env CompletedSuccessfully None (Some sample_index) None)) sample_query
       = Some sample_index
   \<and> (\<exists>w'. monitorRemoteQuery (sample_env CompletedSuccessfully None (Some sample_index) None)
          sample_query (CancellationToken False) empty_world = Inr w'
        \<and> map completed (history w') = [True]
        \<and> map RemoteQueryHistoryItem.status (history w') = [QueryStatus.Completed]
        \<and> files w' [''/storage'', ''q-V1StGXR8'', ''query-result.json'']
            = Some (ResultPayload sample_result))"
  using completed_only_with_summary
    [of "''q-V1StGXR8''" "sample_env Cancelled None (Some sample_index) None" sample_query
        "sample_item ''q'' ''q-V1StGXR8'' ''/storage''" "CancellationToken True" empty_world]
    completed_only_with_summary
    [of "''q-V1StGXR8''" "sample_env CompletedSuccessfully None (Some sample_index) None" sample_query
        "sample_item ''q'' ''q-V1StGXR8'' ''/storage''" "CancellationToken False" empty_world]
  by (auto simp: sample_env_def sample_query_def empty_world_def createQueryId_def sample_result_def
      sample_item_def monitor_cancelled monitor_with_index)


text \<open>
  Claim C8. \<open>runRemoteQuery\<close> starts the \<open>codeQL.monitorRemoteQuery\<close> command on the
  submitted query exactly when the submission yields a query; when the submission yields
  nothing, or a result without a query, no command is started. The command is started and
  not awaited: when \<open>runRemoteQuery\<close> is done, its effects are the credentials call, the
  submission and the start of the command, and neither the history nor the files have
  changed.
\<close>

theorem runRemoteQuery_follow_up:
  assumes "target = (case uri of Some u \<Rightarrow> Some u | None \<Rightarrow> activeTextEditorUri env)"
    and "submission = runRemoteQuery_result env (credentials env) target False tok"
  shows "history (runRemoteQuery env uri tok w0) = history w0
    \<and> files (runRemoteQuery env uri tok w0) = files w0
    \<and> (submission = None \<or> (\<exists>sub. submission = Some sub \<and> query sub = None) \<longrightarrow>
          trace (runRemoteQuery env uri tok w0) = trace w0 @
            [CredentialsInitialize, RunRemoteQuery (credentials env) target False tok])
    \<and> (\<forall>sub q. submission = Some sub \<and> query sub = Some q \<longrightarrow>
          trace (runRemoteQuery env uri tok w0) = trace w0 @
            [CredentialsInitialize, RunRemoteQuery (credentials env) target False tok,
             ExecuteCommand ''codeQL.monitorRemoteQuery'' (QueryPayload q)])"
  using assms
  by (auto simp: runRemoteQuery_def effect_defs Let_def split: option.splits)

theorem runRemoteQuery_follow_up_witness:
  "(case None of Some u \<Rightarrow> Some u
    | None \<Rightarrow> activeTextEditorUri (sample_env Cancelled None None None)) = Some ''file:///w/q.ql''
   \<and> runRemoteQuery_result (sample_env Cancelled None None None) (Credentials ''token'')
      (Some ''file:///w/q.ql'') False (CancellationToken False) = None
   \<and> trace (runRemoteQuery (sample_env Cancelled None None None) None (CancellationToken False) empty_world)
       = [CredentialsInitialize,
          RunRemoteQuery (Credentials ''token'') (Some ''file:///w/q.ql'') False (CancellationToken False)]
   \<and> runRemoteQuery_result (sample_env Cancelled None None (Some \<lparr>query = None\<rparr>)) (Credentials ''token'')
      (Some ''file:///w/other.ql'') False (CancellationToken False) = Some \<lparr>query = None\<rparr>
   \<and> trace (runRemoteQuery (sample_env Cancelled None None (Some \<lparr>query = None\<rparr>))
        (Some ''file:///w/other.ql'') (CancellationToken False) empty_world)
       = [CredentialsInitialize,
          RunRemoteQuery (Credentials ''token'') (Some ''file:///w/other.ql'') False (CancellationToken False)]
   \<and> runRemoteQuery_result (sample_env Cancelled None None (Some \<lparr>query = Some sample_query\<rparr>))
        (Credentials ''token'') (Some ''file:///w/q.ql'') False (CancellationToken False)
       = Some \<lparr>query = Some sample_query\<rparr>
   \<and> trace (runRemoteQuery (sample_env Cancelled None None (Some \<lparr>query = Some sample_query\<rparr>))
        None (CancellationToken False) empty_world)
       = [CredentialsInitialize,
          RunRemoteQuery (Credentials ''token'') (Some ''file:///w/q.ql'') False (CancellationToken False),
          ExecuteCommand ''codeQL.monitorRemoteQuery'' (QueryPayload sample_query)]
   \<and> history (runRemoteQuery (sample_env Cancelled None None (Some \<lparr>query = Some sample_query\<rparr>))
        None (CancellationToken False) empty_world) = []"
  using runRemoteQuery_follow_up
    [where target = "Some ''file:///w/q.ql''" and uri = None
       and env = "sample_env Cancelled None None None" and submission = None
       and tok = "CancellationToken False" and ?w0.0 = empty_world]
    runRemoteQuery_follow_up
    [where target = "Some ''file:///w/other.ql''" and uri = "Some ''file:///w/other.ql''"
       and env = "sample_env Cancelled None None (Some \<lparr>query = None\<rparr>)"
       and submission = "Some \<lparr>query = None\<rparr>"
       and tok = "CancellationToken False" and ?w0.0 = empty_world]
    runRemoteQuery_follow_up
    [where target = "Some ''file:///w/q.ql''" and uri = None
       and env = "sample_env Cancelled None None (Some \<lparr>query = Some sample_query\<rparr>)"
       and submission = "Some \<lparr>query = Some sample_query\<rparr>"
       and tok = "CancellationToken False" and ?w0.0 = empty_world]
  by (simp add: sample_env_def empty_world_def)

text \<open>
  Claim C1 says that the history view is refreshed at the end of every run, the run with
  a missing index included. On that run the method returns right after reporting the
  error: the trace ends with the error message and holds no \<open>RefreshTreeView\<close>.
\<close>

theorem monitorRemoteQuery_index_missing_skips_refresh:
  "\<exists>w'. monitorRemoteQuery (sample_env CompletedSuccessfully None None None) sample_query
           (CancellationToken False) empty_world = Inr w'
     \<and> trace w' =
         [CreateTimestampFile [''/storage'', ''q-V1StGXR8''],
          WriteFile [''/storage'', ''q-V1StGXR8'', ''query.json''] (QueryPayload sample_query),
          AddQuery (sample_item ''q'' ''q-V1StGXR8'' ''/storage''),
          CredentialsInitialize,
          MonitorQuery sample_query (CancellationToken False),
          GetRemoteQueryIndex (Credentials ''token'') sample_query,
          ShowAndLogErrorMessage ''There was an issue retrieving the result for the query q'']
     \<and> RefreshTreeView \<notin> set (trace w')"
proof -
  have "RemoteQueryWorkflowResult.status
     (monitorQuery_result (sample_env CompletedSuccessfully None None None) sample_query
        (CancellationToken False)) = CompletedSuccessfully"
    by (simp add: sample_env_def)
  moreover have "getRemoteQueryIndex_result (sample_env CompletedSuccessfully None None None)
        (credentials (sample_env CompletedSuccessfully None None None)) sample_query = None"
    by (simp add: sample_env_def)
  ultimately show ?thesis
    by (simp add: monitor_no_index [where ?w0.0 = empty_world]) (simp add: sample_defs)
qed

end
